theory Spec2Isabelle
  imports Main
begin

section \<open>The database initializer \<^verbatim>\<open>backend/init_db.py\<close>\<close>

text \<open>
  The script is straight-line code: it reads five environment variables, validates three
  of them, opens a connection, obtains a cursor, executes one statement, commits, closes
  the cursor and the connection and prints one line. It contains no exception handler, so
  the first call that raises ends the run. The model passes the state explicitly: the run
  takes the environment and the contents of the database server and returns the exception
  that ended it (if any), the calls it made on the outside world in order, and the
  contents of the server afterwards.
\<close>

subsection \<open>Python values, exceptions and the environment\<close>

text \<open>\<^verbatim>\<open>os.environ\<close>: a dictionary from names to strings.\<close>

type_synonym environ = "string \<rightharpoonup> string"

text \<open>
  The value bound to \<^verbatim>\<open>port\<close>: \<^verbatim>\<open>os.environ.get("POSTGRES_PORT", 5432)\<close> is the
  environment's string when the variable is set and the integer \<^verbatim>\<open>5432\<close> otherwise.
\<close>

datatype pyval = PyInt int | PyStr string

text \<open>
  The exceptions of a run: the script's own \<^verbatim>\<open>ValueError\<close> with its message, and
  whatever the driver raises (a \<^verbatim>\<open>psycopg2.Error\<close>, named by its class and text).
\<close>

datatype exn = ValueError string | Psycopg2Error string

text \<open>
  Python's truth value of the result of \<^verbatim>\<open>os.environ.get(name)\<close>: \<^verbatim>\<open>None\<close> and
  the empty string are false, every other string is true.
\<close>

fun truthy :: "string option \<Rightarrow> bool" where
  "truthy None = False"
| "truthy (Some s) = (s \<noteq> [])"

subsection \<open>The database: columns, tables, statements\<close>

datatype sql_type = T_SERIAL | T_UUID | T_TEXT | T_FLOAT | T_INT | T_TIMESTAMP

datatype default_expr = NOW

text \<open>One column definition of a \<^verbatim>\<open>CREATE TABLE\<close> statement, with its constraints.\<close>

record column =
  col_name :: string
  col_type :: sql_type
  primary_key :: bool
  not_null :: bool
  col_default :: "default_expr option"

text \<open>
  A row gives a value to some columns; \<^verbatim>\<open>None\<close> is SQL's \<^verbatim>\<open>NULL\<close>, and a column
  that the row does not mention is left to its default.
\<close>

type_synonym row = "(string \<times> string option) list"

record table =
  tbl_name :: string
  tbl_columns :: "column list"
  tbl_rows :: "row list"

text \<open>
  The relations of a database, as far as the statement of the script can meet them: those
  of the schema where an unqualified name is created, in which a name denotes at most one
  relation, whatever its kind. A sequence records the table and column that own it, an
  index the table and columns it is on; the last constructor stands for the other kinds (a
  materialized view, a composite type, a foreign table). What is not a relation of that
  schema is not part of the catalog: types, constraints, and the storage the engine keeps
  in schemas of its own.
\<close>

datatype relation =
    Table table
  | View string
  | Sequence string string string
  | Index string string "string list"
  | OtherRelation string

fun rel_name :: "relation \<Rightarrow> string" where
  "rel_name (Table t) = tbl_name t"
| "rel_name (View n) = n"
| "rel_name (Sequence n t c) = n"
| "rel_name (Index n t cs) = n"
| "rel_name (OtherRelation n) = n"

fun is_table :: "relation \<Rightarrow> bool" where
  "is_table (Table t) = True"
| "is_table r = False"

text \<open>
  The catalog of one database is the list of its relations, and the server holds one
  catalog per database name. The catalog is a list so that a duplicate would be visible.
\<close>

type_synonym catalog = "relation list"

type_synonym server = "string \<Rightarrow> catalog"

text \<open>
  \<^verbatim>\<open>CREATE TABLE [IF NOT EXISTS] name (columns)\<close>; the flag is the
  \<^verbatim>\<open>IF NOT EXISTS\<close> clause.
\<close>

datatype statement = CreateTable bool string "column list"

definition plain_column :: "string \<Rightarrow> sql_type \<Rightarrow> column" where
  "plain_column n t =
     \<lparr>col_name = n, col_type = t, primary_key = False, not_null = False, col_default = None\<rparr>"

text \<open>The string literal of lines 31 to 44, one column per line of the source.\<close>

definition predictions_columns :: "column list" where
  "predictions_columns =
     [ (plain_column ''id'' T_SERIAL)\<lparr>primary_key := True\<rparr>,
       (plain_column ''prediction_id'' T_UUID)\<lparr>not_null := True\<rparr>,
       plain_column ''image_path'' T_TEXT,
       plain_column ''class_name'' T_TEXT,
       plain_column ''confidence'' T_FLOAT,
       plain_column ''bbox_left'' T_INT,
       plain_column ''bbox_top'' T_INT,
       plain_column ''bbox_width'' T_INT,
       plain_column ''bbox_height'' T_INT,
       (plain_column ''created_at'' T_TIMESTAMP)\<lparr>col_default := Some NOW\<rparr> ]"

definition create_predictions :: statement where
  "create_predictions = CreateTable True ''predictions'' predictions_columns"

definition relation_names :: "catalog \<Rightarrow> string list" where
  "relation_names cat = map rel_name cat"

fun tables_of :: "catalog \<Rightarrow> table list" where
  "tables_of [] = []"
| "tables_of (Table t # cat) = t # tables_of cat"
| "tables_of (r # cat) = tables_of cat"

definition lookup_table :: "catalog \<Rightarrow> string \<Rightarrow> table option" where
  "lookup_table cat n = find (\<lambda>t. tbl_name t = n) (tables_of cat)"

definition count_tables :: "catalog \<Rightarrow> string \<Rightarrow> nat" where
  "count_tables cat n = length (filter (\<lambda>t. tbl_name t = n) (tables_of cat))"

text \<open>A relation of that name that is not a table: a view, a sequence, an index.\<close>

definition shadowed :: "catalog \<Rightarrow> string \<Rightarrow> bool" where
  "shadowed cat n = list_ex (\<lambda>r. rel_name r = n \<and> \<not> is_table r) cat"

subsection \<open>How the engine reads a column definition\<close>

datatype value_kind = Integer | Uuid | Text | FloatingPoint | Timestamp

text \<open>\<^verbatim>\<open>SERIAL\<close> is an integer column fed by a sequence; \<^verbatim>\<open>FLOAT\<close> is double precision.\<close>

fun kind_of :: "sql_type \<Rightarrow> value_kind" where
  "kind_of T_SERIAL = Integer"
| "kind_of T_INT = Integer"
| "kind_of T_UUID = Uuid"
| "kind_of T_TEXT = Text"
| "kind_of T_FLOAT = FloatingPoint"
| "kind_of T_TIMESTAMP = Timestamp"

definition auto_increment :: "column \<Rightarrow> bool" where
  "auto_increment c = (col_type c = T_SERIAL)"

text \<open>
  A column accepts \<^verbatim>\<open>NULL\<close> unless it is declared \<^verbatim>\<open>NOT NULL\<close>, is (part of)
  the primary key, or is \<^verbatim>\<open>SERIAL\<close>, which implies \<^verbatim>\<open>NOT NULL\<close>.
\<close>

definition nullable :: "column \<Rightarrow> bool" where
  "nullable c = (\<not> not_null c \<and> \<not> primary_key c \<and> col_type c \<noteq> T_SERIAL)"

definition defaults_to_insertion_time :: "column \<Rightarrow> bool" where
  "defaults_to_insertion_time c = (col_default c = Some NOW)"

subsection \<open>What the engine does with the statement\<close>

text \<open>
  PostgreSQL's documented behaviour, which the script relies on. When a relation of that
  name exists, of any kind, the catalog is left as it is: with a notice under
  \<^verbatim>\<open>IF NOT EXISTS\<close>, with the error \<^verbatim>\<open>DuplicateTable\<close> without it. Otherwise
  the statement creates, together with the empty table, a sequence for each
  \<^verbatim>\<open>SERIAL\<close> column, owned by that column, and the index of the primary key.

  The engine names the sequence \<^verbatim>\<open>table_column_seq\<close> and the index
  \<^verbatim>\<open>table_pkey\<close>, or a variant of that name when it is taken. The choice is the
  engine's and is a parameter here: it takes the names in use and the name wanted, and
  gives the name used.
\<close>

type_synonym namer = "string list \<Rightarrow> string \<Rightarrow> string"

definition serial_sequences ::
    "namer \<Rightarrow> string list \<Rightarrow> string \<Rightarrow> column list \<Rightarrow> relation list" where
  "serial_sequences pick taken n cols =
     map (\<lambda>c. Sequence (pick taken (n @ ''_'' @ col_name c @ ''_seq'')) n (col_name c))
       (filter auto_increment cols)"

definition primary_key_index ::
    "namer \<Rightarrow> string list \<Rightarrow> string \<Rightarrow> column list \<Rightarrow> relation list" where
  "primary_key_index pick taken n cols =
     (let pk = filter primary_key cols
      in if pk = [] then [] else [Index (pick taken (n @ ''_pkey'')) n (map col_name pk)])"

fun exec_ddl :: "namer \<Rightarrow> statement \<Rightarrow> catalog \<Rightarrow> exn + catalog" where
  "exec_ddl pick (CreateTable if_not_exists n cols) cat =
     (if n \<in> set (relation_names cat)
      then (if if_not_exists then Inr cat else Inl (Psycopg2Error ''DuplicateTable''))
      else (let seqs = serial_sequences pick (relation_names cat) n cols;
                tbl = Table \<lparr>tbl_name = n, tbl_columns = cols, tbl_rows = []\<rparr>;
                idx = primary_key_index pick (relation_names (cat @ seqs @ [tbl])) n cols
            in Inr (cat @ seqs @ [tbl] @ idx)))"

subsection \<open>The NOT NULL check of an insertion\<close>

text \<open>
  The value a new row stores in a column: the value the row gives, else the column's
  default (the next sequence number, the current time), else \<^verbatim>\<open>NULL\<close>.
\<close>

definition stored_value :: "column \<Rightarrow> row \<Rightarrow> string option" where
  "stored_value c r =
     (case map_of r (col_name c) of
        Some v \<Rightarrow> v
      | None \<Rightarrow>
          if auto_increment c then Some ''nextval''
          else (case col_default c of Some NOW \<Rightarrow> Some ''now'' | None \<Rightarrow> None))"

text \<open>Some column that does not accept \<^verbatim>\<open>NULL\<close> would store \<^verbatim>\<open>NULL\<close>.\<close>

definition not_null_violation :: "table \<Rightarrow> row \<Rightarrow> bool" where
  "not_null_violation t r =
     list_ex (\<lambda>c. \<not> nullable c \<and> stored_value c r = None) (tbl_columns t)"

text \<open>
  An insertion fails in other ways too, which are not modelled and are parameters: before
  the row is built, when it names a column the table does not have or gives a value that
  is not of the column's type (not a UUID, an integer out of range); after the
  \<^verbatim>\<open>NOT NULL\<close> check, when the key is already in the table. A row that passes all of
  them is stored with its defaults filled in.
\<close>

record insert_checks =
  coercion_error :: "table \<Rightarrow> row \<Rightarrow> exn option"
  unique_violation :: "table \<Rightarrow> row \<Rightarrow> exn option"

definition insert_row :: "insert_checks \<Rightarrow> table \<Rightarrow> row \<Rightarrow> exn + table" where
  "insert_row chk t r =
     (case coercion_error chk t r of
        Some e \<Rightarrow> Inl e
      | None \<Rightarrow>
          if not_null_violation t r then Inl (Psycopg2Error ''NotNullViolation'')
          else (case unique_violation chk t r of
                  Some e \<Rightarrow> Inl e
                | None \<Rightarrow>
                    Inr (t\<lparr>tbl_rows := tbl_rows t
                              @ [map (\<lambda>c. (col_name c, stored_value c r)) (tbl_columns t)]\<rparr>)))"

subsection \<open>The outside world and the run\<close>

text \<open>The keyword arguments of \<^verbatim>\<open>psycopg2.connect\<close>, lines 20 to 26.\<close>

record conn_params =
  dbname :: string
  user :: string
  password :: string
  host :: string
  port :: pyval

text \<open>The calls the script makes on the driver and on standard output, in order.\<close>

datatype event =
    Connect conn_params
  | Cursor
  | Execute statement
  | Commit
  | CursorClose
  | ConnClose
  | Print string

text \<open>
  What the script does not decide: what \<^verbatim>\<open>load_dotenv()\<close> adds to
  \<^verbatim>\<open>os.environ\<close> from a local file; which of the driver's calls raise, for a
  reason that the catalog below does not hold (host unreachable, authentication rejected,
  insufficient privilege, connection lost, a type that is not a relation but bears the
  name of the table); and how the engine names the objects it creates along with a table.
  \<^verbatim>\<open>None\<close> means that the call returns.
\<close>

record world =
  load_dotenv :: "environ \<Rightarrow> environ"
  connect_fault :: "conn_params \<Rightarrow> exn option"
  cursor_fault :: "exn option"
  execute_fault :: "exn option"
  commit_fault :: "exn option"
  cursor_close_fault :: "exn option"
  conn_close_fault :: "exn option"
  choose_relation_name :: namer

record outcome =
  raised :: "exn option"
  trace :: "event list"
  db :: server

text \<open>The interpreter exits with status 1 on an uncaught exception and 0 otherwise.\<close>

definition exit_status :: "outcome \<Rightarrow> int" where
  "exit_status r = (case raised r of None \<Rightarrow> 0 | Some e \<Rightarrow> 1)"

definition abort :: "exn \<Rightarrow> event list \<Rightarrow> server \<Rightarrow> outcome" where
  "abort e tr srv = \<lparr>raised = Some e, trace = tr, db = srv\<rparr>"

definition credentials_message :: string where
  "credentials_message =
     ''POSTGRES_DB, POSTGRES_USER, and POSTGRES_PASSWORD must be set in environment variables.''"

definition success_message :: string where
  "success_message = ''Database initialized successfully.''"

text \<open>\<^verbatim>\<open>cursor.execute(stmt)\<close>: the call fails for an outside reason or the engine runs it.\<close>

definition execute :: "world \<Rightarrow> statement \<Rightarrow> catalog \<Rightarrow> exn + catalog" where
  "execute w stmt cat =
     (case execute_fault w of
        Some e \<Rightarrow> Inl e
      | None \<Rightarrow> exec_ddl (choose_relation_name w) stmt cat)"

text \<open>
  Lines 47 to 51, after the statement has run inside the open transaction and left the
  catalog \<open>pending\<close>: the commit makes it the catalog of the database; then the cursor
  and the connection are closed and the message is printed. \<open>tr\<close> holds the calls made
  so far.
\<close>

definition commit_and_close ::
    "world \<Rightarrow> string \<Rightarrow> catalog \<Rightarrow> event list \<Rightarrow> server \<Rightarrow> outcome" where
  "commit_and_close w d pending tr srv =
     (case commit_fault w of
        Some e \<Rightarrow> abort e (tr @ [Commit]) srv
      | None \<Rightarrow>
          (case cursor_close_fault w of
             Some e \<Rightarrow> abort e (tr @ [Commit, CursorClose]) (srv(d := pending))
           | None \<Rightarrow>
               (case conn_close_fault w of
                  Some e \<Rightarrow> abort e (tr @ [Commit, CursorClose, ConnClose]) (srv(d := pending))
                | None \<Rightarrow>
                    \<lparr>raised = None,
                     trace = tr @ [Commit, CursorClose, ConnClose, Print success_message],
                     db = srv(d := pending)\<rparr>)))"

text \<open>Lines 20 to 44: connect, obtain the cursor, execute the statement.\<close>

definition connect_and_create :: "world \<Rightarrow> conn_params \<Rightarrow> server \<Rightarrow> outcome" where
  "connect_and_create w p srv =
     (case connect_fault w p of
        Some e \<Rightarrow> abort e [Connect p] srv
      | None \<Rightarrow>
          (case cursor_fault w of
             Some e \<Rightarrow> abort e [Connect p, Cursor] srv
           | None \<Rightarrow>
               (case execute w create_predictions (srv (dbname p)) of
                  Inl e \<Rightarrow> abort e [Connect p, Cursor, Execute create_predictions] srv
                | Inr pending \<Rightarrow>
                    commit_and_close w (dbname p) pending
                      [Connect p, Cursor, Execute create_predictions] srv)))"

text \<open>
  Lines 9 to 17: the five reads of the environment and the check of the three required
  values. In the branch that returns the parameters the three credentials have passed
  the check of line 16, so each is a string; the last case cannot occur and stands for no
  line of the source.
\<close>

definition resolve :: "environ \<Rightarrow> exn + conn_params" where
  "resolve env =
     (let dbname_v = env ''POSTGRES_DB'';
          user_v = env ''POSTGRES_USER'';
          password_v = env ''POSTGRES_PASSWORD'';
          host_v = (case env ''POSTGRES_HOST'' of None \<Rightarrow> ''localhost'' | Some h \<Rightarrow> h);
          port_v = (case env ''POSTGRES_PORT'' of None \<Rightarrow> PyInt 5432 | Some s \<Rightarrow> PyStr s)
      in if \<not> truthy dbname_v \<or> \<not> truthy user_v \<or> \<not> truthy password_v
         then Inl (ValueError credentials_message)
         else (case (dbname_v, user_v, password_v) of
                 (Some d, Some u, Some pw) \<Rightarrow>
                   Inr \<lparr>dbname = d, user = u, password = pw, host = host_v, port = port_v\<rparr>
               | _ \<Rightarrow> Inl (ValueError credentials_message)))"

text \<open>
  The whole script: \<^verbatim>\<open>load_dotenv()\<close>, the reads and the check, and then the calls
  on the driver.
\<close>

definition init_db :: "world \<Rightarrow> environ \<Rightarrow> server \<Rightarrow> outcome" where
  "init_db w os_environ srv =
     (case resolve (load_dotenv w os_environ) of
        Inl e \<Rightarrow> abort e [] srv
      | Inr p \<Rightarrow> connect_and_create w p srv)"

subsection \<open>Concrete worlds, environments and servers\<close>

text \<open>
  No local configuration file, every call of the driver returns, and the engine's first
  choice of a name is free.
\<close>

definition quiet_world :: world where
  "quiet_world =
     \<lparr>load_dotenv = (\<lambda>e. e), connect_fault = (\<lambda>p. None), cursor_fault = None,
      execute_fault = None, commit_fault = None, cursor_close_fault = None,
      conn_close_fault = None, choose_relation_name = (\<lambda>taken n. n)\<rparr>"

definition detect_env :: environ where
  "detect_env =
     [''POSTGRES_DB'' \<mapsto> ''detect'', ''POSTGRES_USER'' \<mapsto> ''u'', ''POSTGRES_PASSWORD'' \<mapsto> ''p'']"

definition no_db_env :: environ where
  "no_db_env = [''POSTGRES_USER'' \<mapsto> ''u'', ''POSTGRES_PASSWORD'' \<mapsto> ''p'']"

definition detect_params :: conn_params where
  "detect_params =
     \<lparr>dbname = ''detect'', user = ''u'', password = ''p'', host = ''localhost'',
      port = PyInt 5432\<rparr>"

definition empty_server :: server where
  "empty_server = (\<lambda>d. [])"

definition blank_host_env :: environ where
  "blank_host_env = detect_env(''POSTGRES_HOST'' \<mapsto> '''', ''POSTGRES_PORT'' \<mapsto> ''6543'')"

text \<open>The host does not answer; the role may not create tables; the commit is lost.\<close>

definition unreachable_world :: world where
  "unreachable_world =
     quiet_world\<lparr>connect_fault := (\<lambda>p. Some (Psycopg2Error ''OperationalError''))\<rparr>"

definition denied_world :: world where
  "denied_world = quiet_world\<lparr>execute_fault := Some (Psycopg2Error ''InsufficientPrivilege'')\<rparr>"

definition commit_lost_world :: world where
  "commit_lost_world = quiet_world\<lparr>commit_fault := Some (Psycopg2Error ''OperationalError'')\<rparr>"

subsection \<open>Reading a trace and a catalog\<close>

fun connects :: "event list \<Rightarrow> conn_params list" where
  "connects [] = []"
| "connects (Connect p # tr) = p # connects tr"
| "connects (ev # tr) = connects tr"

fun executed :: "event list \<Rightarrow> statement list" where
  "executed [] = []"
| "executed (Execute s # tr) = s # executed tr"
| "executed (ev # tr) = executed tr"

fun printed :: "event list \<Rightarrow> string list" where
  "printed [] = []"
| "printed (Print s # tr) = s # printed tr"
| "printed (ev # tr) = printed tr"

text \<open>The table that the statement of the script adds to a catalog without one.\<close>

definition fresh_predictions :: table where
  "fresh_predictions =
     \<lparr>tbl_name = ''predictions'', tbl_columns = predictions_columns, tbl_rows = []\<rparr>"

text \<open>
  What the statement creates in a catalog without a relation named \<^verbatim>\<open>predictions\<close>:
  the sequence of \<^verbatim>\<open>id\<close>, the table, and the index of the primary key.
\<close>

definition id_sequence :: "world \<Rightarrow> catalog \<Rightarrow> relation" where
  "id_sequence w cat =
     Sequence (choose_relation_name w (relation_names cat) ''predictions_id_seq'')
       ''predictions'' ''id''"

definition pkey_index :: "world \<Rightarrow> catalog \<Rightarrow> relation" where
  "pkey_index w cat =
     Index (choose_relation_name w
              (relation_names (cat @ [id_sequence w cat, Table fresh_predictions]))
              ''predictions_pkey'')
       ''predictions'' [''id'']"

definition created_relations :: "world \<Rightarrow> catalog \<Rightarrow> relation list" where
  "created_relations w cat = [id_sequence w cat, Table fresh_predictions, pkey_index w cat]"

definition with_predictions :: "world \<Rightarrow> catalog \<Rightarrow> catalog" where
  "with_predictions w cat =
     (if ''predictions'' \<in> set (relation_names cat) then cat
      else cat @ created_relations w cat)"

text \<open>An environment whose database name is the empty string, and two non-empty servers.\<close>

definition blank_db_env :: environ where
  "blank_db_env = detect_env(''POSTGRES_DB'' \<mapsto> '''')"

definition users_table :: table where
  "users_table =
     \<lparr>tbl_name = ''users'', tbl_columns = [plain_column ''name'' T_TEXT],
      tbl_rows = [[(''name'', Some ''ada'')]]\<rparr>"

definition old_predictions :: table where
  "old_predictions =
     \<lparr>tbl_name = ''predictions'', tbl_columns = [plain_column ''label'' T_TEXT],
      tbl_rows = [[(''label'', Some ''cat'')]]\<rparr>"

definition legacy_server :: server where
  "legacy_server = empty_server(''detect'' := [Table users_table, Table old_predictions])"

text \<open>A database in which \<^verbatim>\<open>predictions\<close> is a view.\<close>

definition view_server :: server where
  "view_server = empty_server(''detect'' := [Table users_table, View ''predictions''])"

definition no_checks :: insert_checks where
  "no_checks = \<lparr>coercion_error = (\<lambda>t r. None), unique_violation = (\<lambda>t r. None)\<rparr>"

section \<open>The shape of a run\<close>

lemma exec_create_predictions:
  "exec_ddl (choose_relation_name w) create_predictions cat = Inr (with_predictions w cat)"
  by (simp add: create_predictions_def with_predictions_def created_relations_def
        id_sequence_def pkey_index_def fresh_predictions_def serial_sequences_def
        primary_key_index_def predictions_columns_def plain_column_def auto_increment_def
        Let_def)

lemma execute_create_predictions:
  "execute w create_predictions cat =
     (case execute_fault w of Some e \<Rightarrow> Inl e | None \<Rightarrow> Inr (with_predictions w cat))"
  by (simp add: execute_def exec_create_predictions split: option.splits)

text \<open>The seven ways a run that has passed validation can go, one per call that can raise.\<close>

lemma connect_raises:
  assumes "connect_fault w p = Some e"
  shows "connect_and_create w p srv = abort e [Connect p] srv"
  using assms by (simp add: connect_and_create_def)

lemma cursor_raises:
  assumes "connect_fault w p = None" "cursor_fault w = Some e"
  shows "connect_and_create w p srv = abort e [Connect p, Cursor] srv"
  using assms by (simp add: connect_and_create_def)

lemma execute_raises:
  assumes "connect_fault w p = None" "cursor_fault w = None" "execute_fault w = Some e"
  shows "connect_and_create w p srv =
           abort e [Connect p, Cursor, Execute create_predictions] srv"
  using assms by (simp add: connect_and_create_def execute_create_predictions)

lemma commit_raises:
  assumes "connect_fault w p = None" "cursor_fault w = None" "execute_fault w = None"
      and "commit_fault w = Some e"
  shows "connect_and_create w p srv =
           abort e [Connect p, Cursor, Execute create_predictions, Commit] srv"
  using assms
  by (simp add: connect_and_create_def execute_create_predictions commit_and_close_def)

lemma cursor_close_raises:
  assumes "connect_fault w p = None" "cursor_fault w = None" "execute_fault w = None"
      and "commit_fault w = None" "cursor_close_fault w = Some e"
  shows "connect_and_create w p srv =
           abort e [Connect p, Cursor, Execute create_predictions, Commit, CursorClose]
             (srv(dbname p := with_predictions w (srv (dbname p))))"
  using assms
  by (simp add: connect_and_create_def execute_create_predictions commit_and_close_def)

lemma conn_close_raises:
  assumes "connect_fault w p = None" "cursor_fault w = None" "execute_fault w = None"
      and "commit_fault w = None" "cursor_close_fault w = None"
      and "conn_close_fault w = Some e"
  shows "connect_and_create w p srv =
           abort e [Connect p, Cursor, Execute create_predictions, Commit, CursorClose,
                    ConnClose]
             (srv(dbname p := with_predictions w (srv (dbname p))))"
  using assms
  by (simp add: connect_and_create_def execute_create_predictions commit_and_close_def)

lemma nothing_raises:
  assumes "connect_fault w p = None" "cursor_fault w = None" "execute_fault w = None"
      and "commit_fault w = None" "cursor_close_fault w = None"
      and "conn_close_fault w = None"
  shows "connect_and_create w p srv =
           \<lparr>raised = None,
            trace = [Connect p, Cursor, Execute create_predictions, Commit, CursorClose,
                     ConnClose, Print success_message],
            db = srv(dbname p := with_predictions w (srv (dbname p)))\<rparr>"
  using assms
  by (simp add: connect_and_create_def execute_create_predictions commit_and_close_def)

lemma connect_and_create_cases:
  obtains
    (connect) e where "connect_fault w p = Some e"
      "connect_and_create w p srv = abort e [Connect p] srv"
  | (cursor) e where "connect_fault w p = None" "cursor_fault w = Some e"
      "connect_and_create w p srv = abort e [Connect p, Cursor] srv"
  | (execute) e where "connect_fault w p = None" "cursor_fault w = None"
      "execute_fault w = Some e"
      "connect_and_create w p srv =
         abort e [Connect p, Cursor, Execute create_predictions] srv"
  | (commit) e where "connect_fault w p = None" "cursor_fault w = None"
      "execute_fault w = None" "commit_fault w = Some e"
      "connect_and_create w p srv =
         abort e [Connect p, Cursor, Execute create_predictions, Commit] srv"
  | (cursor_close) e where "connect_fault w p = None" "cursor_fault w = None"
      "execute_fault w = None" "commit_fault w = None" "cursor_close_fault w = Some e"
      "connect_and_create w p srv =
         abort e [Connect p, Cursor, Execute create_predictions, Commit, CursorClose]
           (srv(dbname p := with_predictions w (srv (dbname p))))"
  | (conn_close) e where "connect_fault w p = None" "cursor_fault w = None"
      "execute_fault w = None" "commit_fault w = None" "cursor_close_fault w = None"
      "conn_close_fault w = Some e"
      "connect_and_create w p srv =
         abort e [Connect p, Cursor, Execute create_predictions, Commit, CursorClose,
                  ConnClose]
           (srv(dbname p := with_predictions w (srv (dbname p))))"
  | (success) "connect_fault w p = None" "cursor_fault w = None"
      "execute_fault w = None" "commit_fault w = None" "cursor_close_fault w = None"
      "conn_close_fault w = None"
      "connect_and_create w p srv =
         \<lparr>raised = None,
          trace = [Connect p, Cursor, Execute create_predictions, Commit, CursorClose,
                   ConnClose, Print success_message],
          db = srv(dbname p := with_predictions w (srv (dbname p)))\<rparr>"
proof (cases "connect_fault w p")
  case (Some e)
  then show ?thesis using connect connect_raises by blast
next
  case c1: None
  show ?thesis
  proof (cases "cursor_fault w")
    case (Some e)
    then show ?thesis using cursor c1 cursor_raises by blast
  next
    case c2: None
    show ?thesis
    proof (cases "execute_fault w")
      case (Some e)
      then show ?thesis using execute c1 c2 execute_raises by blast
    next
      case c3: None
      show ?thesis
      proof (cases "commit_fault w")
        case (Some e)
        then show ?thesis using commit c1 c2 c3 commit_raises by blast
      next
        case c4: None
        show ?thesis
        proof (cases "cursor_close_fault w")
          case (Some e)
          then show ?thesis using cursor_close c1 c2 c3 c4 cursor_close_raises by blast
        next
          case c5: None
          show ?thesis
          proof (cases "conn_close_fault w")
            case (Some e)
            then show ?thesis
              using conn_close c1 c2 c3 c4 c5 conn_close_raises by blast
          next
            case c6: None
            then show ?thesis
              using success c1 c2 c3 c4 c5 nothing_raises by blast
          qed
        qed
      qed
    qed
  qed
qed

section \<open>Validation and connection parameters\<close>

lemma truthy_iff: "truthy v \<longleftrightarrow> (\<exists>s. v = Some s \<and> s \<noteq> [])"
  by (cases v) simp_all

lemma resolve_invalid:
  assumes "\<not> truthy (env ''POSTGRES_DB'') \<or> \<not> truthy (env ''POSTGRES_USER'')
           \<or> \<not> truthy (env ''POSTGRES_PASSWORD'')"
  shows "resolve env = Inl (ValueError credentials_message)"
  using assms by (simp add: resolve_def Let_def)

lemma resolve_valid:
  assumes "env ''POSTGRES_DB'' = Some d" "d \<noteq> []"
      and "env ''POSTGRES_USER'' = Some u" "u \<noteq> []"
      and "env ''POSTGRES_PASSWORD'' = Some pw" "pw \<noteq> []"
  shows "resolve env =
           Inr \<lparr>dbname = d, user = u, password = pw,
                host = (case env ''POSTGRES_HOST'' of None \<Rightarrow> ''localhost'' | Some h \<Rightarrow> h),
                port = (case env ''POSTGRES_PORT'' of None \<Rightarrow> PyInt 5432 | Some s \<Rightarrow> PyStr s)\<rparr>"
  using assms by (simp add: resolve_def Let_def)

lemma resolve_Inr_iff:
  "resolve env = Inr p \<longleftrightarrow>
     env ''POSTGRES_DB'' = Some (dbname p) \<and> dbname p \<noteq> []
     \<and> env ''POSTGRES_USER'' = Some (user p) \<and> user p \<noteq> []
     \<and> env ''POSTGRES_PASSWORD'' = Some (password p) \<and> password p \<noteq> []
     \<and> host p = (case env ''POSTGRES_HOST'' of None \<Rightarrow> ''localhost'' | Some h \<Rightarrow> h)
     \<and> port p = (case env ''POSTGRES_PORT'' of None \<Rightarrow> PyInt 5432 | Some s \<Rightarrow> PyStr s)"
proof (cases "truthy (env ''POSTGRES_DB'') \<and> truthy (env ''POSTGRES_USER'')
              \<and> truthy (env ''POSTGRES_PASSWORD'')")
  case True
  then obtain d u pw where v:
    "env ''POSTGRES_DB'' = Some d" "d \<noteq> []"
    "env ''POSTGRES_USER'' = Some u" "u \<noteq> []"
    "env ''POSTGRES_PASSWORD'' = Some pw" "pw \<noteq> []"
    by (auto simp: truthy_iff)
  show ?thesis
    unfolding resolve_valid [OF v] using v by (cases p) auto
next
  case False
  then have "resolve env = Inl (ValueError credentials_message)"
    by (intro resolve_invalid) auto
  with False show ?thesis
    by (auto simp: truthy_iff)
qed

lemma resolve_Inl:
  assumes "resolve env = Inl e"
  shows "e = ValueError credentials_message"
  using assms
  by (auto simp: resolve_def Let_def split: if_splits option.splits)

text \<open>Every run is one of eight: the check fails, or one of the seven above.\<close>

lemma init_db_cases:
  obtains
    (invalid) "resolve (load_dotenv w env) = Inl (ValueError credentials_message)"
      "init_db w env srv = abort (ValueError credentials_message) [] srv"
  | (valid) p where "resolve (load_dotenv w env) = Inr p"
      "init_db w env srv = connect_and_create w p srv"
proof (cases "resolve (load_dotenv w env)")
  case (Inl e)
  then show ?thesis
    using invalid resolve_Inl [OF Inl] by (simp add: init_db_def)
next
  case (Inr p)
  then show ?thesis
    using valid by (simp add: init_db_def)
qed

text \<open>
  C1. Whenever one of \<^verbatim>\<open>POSTGRES_DB\<close>, \<^verbatim>\<open>POSTGRES_USER\<close>,
  \<^verbatim>\<open>POSTGRES_PASSWORD\<close> is absent from the environment the script reads (the process
  environment as \<^verbatim>\<open>load_dotenv()\<close> has left it), or bound to the empty string there,
  the run ends with the \<^verbatim>\<open>ValueError\<close> of line 17 before any call on the driver: the
  trace is empty, so it holds no connect call, the exit status is not zero, and the server
  is untouched.
\<close>

theorem missing_credentials_fail_before_connect:
  assumes "k \<in> {''POSTGRES_DB'', ''POSTGRES_USER'', ''POSTGRES_PASSWORD''}"
      and "load_dotenv w env k = None \<or> load_dotenv w env k = Some ''''"
  shows "raised (init_db w env srv) = Some (ValueError credentials_message)
         \<and> trace (init_db w env srv) = []
         \<and> connects (trace (init_db w env srv)) = []
         \<and> exit_status (init_db w env srv) \<noteq> 0
         \<and> db (init_db w env srv) = srv"
proof -
  from assms(2) have "\<not> truthy (load_dotenv w env k)"
    by auto
  with assms(1) have "resolve (load_dotenv w env) = Inl (ValueError credentials_message)"
    by (intro resolve_invalid) auto
  then show ?thesis
    by (simp add: init_db_def abort_def exit_status_def)
qed

theorem missing_credentials_fail_before_connect_witness:
  "load_dotenv quiet_world no_db_env ''POSTGRES_DB'' = None
   \<and> raised (init_db quiet_world no_db_env empty_server) = Some (ValueError credentials_message)
   \<and> trace (init_db quiet_world no_db_env empty_server) = []
   \<and> exit_status (init_db quiet_world no_db_env empty_server) \<noteq> 0"
  using missing_credentials_fail_before_connect
          [of "''POSTGRES_DB''" quiet_world no_db_env empty_server]
  by (simp add: quiet_world_def no_db_env_def)

lemma connects_connect_and_create:
  "connects (trace (connect_and_create w p srv)) = [p]"
  by (cases rule: connect_and_create_cases [of w p srv]) (simp_all add: abort_def)

text \<open>
  C5. When the three credentials are set and not empty and neither \<^verbatim>\<open>POSTGRES_HOST\<close>
  nor \<^verbatim>\<open>POSTGRES_PORT\<close> is set, the run makes exactly one connect call, it is the
  first call of the run, and it names the host \<^verbatim>\<open>localhost\<close> and the port 5432 (the
  integer) together with the three credentials.
\<close>

theorem default_host_and_port:
  assumes "load_dotenv w env ''POSTGRES_DB'' = Some d" "d \<noteq> []"
      and "load_dotenv w env ''POSTGRES_USER'' = Some u" "u \<noteq> []"
      and "load_dotenv w env ''POSTGRES_PASSWORD'' = Some pw" "pw \<noteq> []"
      and "load_dotenv w env ''POSTGRES_HOST'' = None"
      and "load_dotenv w env ''POSTGRES_PORT'' = None"
  shows "connects (trace (init_db w env srv)) =
           [\<lparr>dbname = d, user = u, password = pw, host = ''localhost'', port = PyInt 5432\<rparr>]
         \<and> take 1 (trace (init_db w env srv)) =
           [Connect \<lparr>dbname = d, user = u, password = pw, host = ''localhost'',
                     port = PyInt 5432\<rparr>]"
proof -
  let ?p = "\<lparr>dbname = d, user = u, password = pw, host = ''localhost'', port = PyInt 5432\<rparr>"
  have "resolve (load_dotenv w env) = Inr ?p"
    using resolve_valid [OF assms(1-6)] assms(7,8) by simp
  then have run: "init_db w env srv = connect_and_create w ?p srv"
    by (simp add: init_db_def)
  have "take 1 (trace (connect_and_create w ?p srv)) = [Connect ?p]"
    by (cases rule: connect_and_create_cases [of w ?p srv]) (simp_all add: abort_def)
  with run show ?thesis
    by (simp add: connects_connect_and_create)
qed

theorem default_host_and_port_witness:
  "load_dotenv quiet_world detect_env ''POSTGRES_HOST'' = None
   \<and> load_dotenv quiet_world detect_env ''POSTGRES_PORT'' = None
   \<and> connects (trace (init_db quiet_world detect_env empty_server)) = [detect_params]
   \<and> take 1 (trace (init_db quiet_world detect_env empty_server)) = [Connect detect_params]"
  using default_host_and_port
          [of quiet_world detect_env "''detect''" "''u''" "''p''" empty_server]
  by (simp add: quiet_world_def detect_env_def detect_params_def)

text \<open>
  C10. The defaults of \<^verbatim>\<open>POSTGRES_HOST\<close> and \<^verbatim>\<open>POSTGRES_PORT\<close> apply only to a
  variable that is not set. With the three credentials set and not empty, a host bound to
  any string, the empty one included, is passed to the connect call as it is, a port
  bound to a string is passed as that string, and an unset port is passed as the integer
  5432. A credential bound to the empty string, in contrast, is treated like an absent
  one: the run ends with the \<^verbatim>\<open>ValueError\<close> and makes no connect call.
\<close>

theorem defaults_apply_only_when_unset:
  "(resolve (load_dotenv w env) = Inr p \<and> load_dotenv w env ''POSTGRES_HOST'' = Some h
      \<longrightarrow> map host (connects (trace (init_db w env srv))) = [h])
   \<and> (resolve (load_dotenv w env) = Inr p \<and> load_dotenv w env ''POSTGRES_HOST'' = None
      \<longrightarrow> map host (connects (trace (init_db w env srv))) = [''localhost''])
   \<and> (resolve (load_dotenv w env) = Inr p \<and> load_dotenv w env ''POSTGRES_PORT'' = Some s
      \<longrightarrow> map port (connects (trace (init_db w env srv))) = [PyStr s])
   \<and> (resolve (load_dotenv w env) = Inr p \<and> load_dotenv w env ''POSTGRES_PORT'' = None
      \<longrightarrow> map port (connects (trace (init_db w env srv))) = [PyInt 5432])
   \<and> (k \<in> {''POSTGRES_DB'', ''POSTGRES_USER'', ''POSTGRES_PASSWORD''}
       \<and> load_dotenv w env k = Some ''''
      \<longrightarrow> raised (init_db w env srv) = Some (ValueError credentials_message)
          \<and> connects (trace (init_db w env srv)) = [])"
proof -
  have valid: "connects (trace (init_db w env srv)) = [p]
               \<and> host p = (case load_dotenv w env ''POSTGRES_HOST'' of
                             None \<Rightarrow> ''localhost'' | Some h \<Rightarrow> h)
               \<and> port p = (case load_dotenv w env ''POSTGRES_PORT'' of
                             None \<Rightarrow> PyInt 5432 | Some s \<Rightarrow> PyStr s)"
    if "resolve (load_dotenv w env) = Inr p"
    using that resolve_Inr_iff [of "load_dotenv w env" p]
    by (simp add: init_db_def connects_connect_and_create)
  have blank: "raised (init_db w env srv) = Some (ValueError credentials_message)
               \<and> connects (trace (init_db w env srv)) = []"
    if "k \<in> {''POSTGRES_DB'', ''POSTGRES_USER'', ''POSTGRES_PASSWORD''}"
      and "load_dotenv w env k = Some ''''"
  proof -
    from that have "resolve (load_dotenv w env) = Inl (ValueError credentials_message)"
      by (intro resolve_invalid) auto
    then show ?thesis
      by (simp add: init_db_def abort_def)
  qed
  show ?thesis
    using valid blank by auto
qed

theorem defaults_apply_only_when_unset_witness:
  "resolve (load_dotenv quiet_world blank_host_env)
     = Inr \<lparr>dbname = ''detect'', user = ''u'', password = ''p'', host = '''',
            port = PyStr ''6543''\<rparr>
   \<and> map host (connects (trace (init_db quiet_world blank_host_env empty_server))) = ['''']
   \<and> map port (connects (trace (init_db quiet_world blank_host_env empty_server)))
       = [PyStr ''6543'']
   \<and> map host (connects (trace (init_db quiet_world detect_env empty_server)))
       = [''localhost'']
   \<and> map port (connects (trace (init_db quiet_world detect_env empty_server)))
       = [PyInt 5432]
   \<and> raised (init_db quiet_world blank_db_env empty_server)
       = Some (ValueError credentials_message)
   \<and> connects (trace (init_db quiet_world blank_db_env empty_server)) = []"
proof -
  have a: "resolve (load_dotenv quiet_world blank_host_env)
             = Inr \<lparr>dbname = ''detect'', user = ''u'', password = ''p'', host = '''',
                    port = PyStr ''6543''\<rparr>"
    by (simp add: quiet_world_def blank_host_env_def detect_env_def resolve_def)
  have b: "resolve (load_dotenv quiet_world detect_env) = Inr detect_params"
    by (simp add: quiet_world_def detect_env_def resolve_def detect_params_def)
  have c: "load_dotenv quiet_world blank_db_env ''POSTGRES_DB'' = Some ''''"
    by (simp add: quiet_world_def blank_db_env_def)
  show ?thesis
    using a b c
      defaults_apply_only_when_unset
        [of quiet_world blank_host_env
            "\<lparr>dbname = ''detect'', user = ''u'', password = ''p'', host = '''',
              port = PyStr ''6543''\<rparr>"
            "''''" empty_server "''6543''" "''POSTGRES_DB''"]
      defaults_apply_only_when_unset
        [of quiet_world detect_env detect_params "''''" empty_server "''6543''"
            "''POSTGRES_DB''"]
      defaults_apply_only_when_unset
        [of quiet_world blank_db_env detect_params "''''" empty_server "''6543''"
            "''POSTGRES_DB''"]
    by (simp add: quiet_world_def blank_host_env_def detect_env_def)
qed

section \<open>Failures of the driver\<close>

text \<open>
  C6. The script has no exception handler. With valid credentials resolved to the
  parameters \<open>p\<close>: an error raised by the connect call, by the execution of the statement
  or by the commit is the error that ends the run, unchanged; the run stops at that call
  with a non-zero exit status; and in each of the three cases the contents of every
  database of the server are what they were, so in particular a failed connection
  creates no table anywhere and no statement is executed.
\<close>

theorem driver_errors_propagate:
  assumes "resolve (load_dotenv w env) = Inr p"
  shows "(connect_fault w p = Some e \<longrightarrow>
            raised (init_db w env srv) = Some e
            \<and> trace (init_db w env srv) = [Connect p]
            \<and> executed (trace (init_db w env srv)) = []
            \<and> exit_status (init_db w env srv) \<noteq> 0
            \<and> db (init_db w env srv) = srv)
       \<and> (connect_fault w p = None \<and> cursor_fault w = None \<and> execute_fault w = Some e \<longrightarrow>
            raised (init_db w env srv) = Some e
            \<and> trace (init_db w env srv) = [Connect p, Cursor, Execute create_predictions]
            \<and> exit_status (init_db w env srv) \<noteq> 0
            \<and> db (init_db w env srv) = srv)
       \<and> (connect_fault w p = None \<and> cursor_fault w = None \<and> execute_fault w = None
          \<and> commit_fault w = Some e \<longrightarrow>
            raised (init_db w env srv) = Some e
            \<and> trace (init_db w env srv)
                = [Connect p, Cursor, Execute create_predictions, Commit]
            \<and> exit_status (init_db w env srv) \<noteq> 0
            \<and> db (init_db w env srv) = srv)"
proof -
  have run: "init_db w env srv = connect_and_create w p srv"
    using assms by (simp add: init_db_def)
  show ?thesis
    unfolding run
    by (cases rule: connect_and_create_cases [of w p srv])
       (simp_all add: abort_def exit_status_def)
qed

theorem driver_errors_propagate_witness:
  "resolve (load_dotenv quiet_world detect_env) = Inr detect_params
   \<and> raised (init_db unreachable_world detect_env legacy_server)
       = Some (Psycopg2Error ''OperationalError'')
   \<and> trace (init_db unreachable_world detect_env legacy_server) = [Connect detect_params]
   \<and> db (init_db unreachable_world detect_env legacy_server) = legacy_server
   \<and> raised (init_db denied_world detect_env legacy_server)
       = Some (Psycopg2Error ''InsufficientPrivilege'')
   \<and> exit_status (init_db denied_world detect_env legacy_server) \<noteq> 0
   \<and> raised (init_db commit_lost_world detect_env legacy_server)
       = Some (Psycopg2Error ''OperationalError'')
   \<and> db (init_db commit_lost_world detect_env legacy_server) = legacy_server"
proof -
  have r: "resolve detect_env = Inr detect_params"
    by (simp add: detect_env_def resolve_def detect_params_def)
  show ?thesis
    using r
      driver_errors_propagate
        [of unreachable_world detect_env detect_params
            "Psycopg2Error ''OperationalError''" legacy_server]
      driver_errors_propagate
        [of denied_world detect_env detect_params
            "Psycopg2Error ''InsufficientPrivilege''" legacy_server]
      driver_errors_propagate
        [of commit_lost_world detect_env detect_params
            "Psycopg2Error ''OperationalError''" legacy_server]
    by (simp add: quiet_world_def unreachable_world_def denied_world_def
          commit_lost_world_def)
qed

section \<open>Success, output and release\<close>

text \<open>
  C7. A run that raises nothing ends with the calls commit, close of the cursor, close of
  the connection and one print, in that order; the print is the only output of the run,
  its text is the sentence \<^verbatim>\<open>Database initialized successfully.\<close> of line 51, which
  holds no line break, so the output is that one line; and the exit status is 0. A run
  that raises prints nothing and exits with a non-zero status.
\<close>

theorem success_prints_once:
  "(raised (init_db w env srv) = None \<longrightarrow>
      printed (trace (init_db w env srv)) = [''Database initialized successfully.'']
      \<and> length (printed (trace (init_db w env srv))) = 1
      \<and> CHR 0x0A \<notin> set (concat (printed (trace (init_db w env srv))))
      \<and> (\<exists>pre. trace (init_db w env srv)
                 = pre @ [Commit, CursorClose, ConnClose,
                          Print ''Database initialized successfully.''])
      \<and> exit_status (init_db w env srv) = 0)
   \<and> (raised (init_db w env srv) \<noteq> None \<longrightarrow>
        printed (trace (init_db w env srv)) = []
        \<and> exit_status (init_db w env srv) \<noteq> 0)"
proof (cases rule: init_db_cases [of w env srv])
  case invalid
  then show ?thesis
    by (simp add: abort_def exit_status_def)
next
  case (valid p)
  show ?thesis
    unfolding valid(2)
    by (cases rule: connect_and_create_cases [of w p srv])
       (simp_all add: abort_def exit_status_def success_message_def)
qed

theorem success_prints_once_witness:
  "raised (init_db quiet_world detect_env empty_server) = None
   \<and> printed (trace (init_db quiet_world detect_env empty_server))
       = [''Database initialized successfully.'']
   \<and> exit_status (init_db quiet_world detect_env empty_server) = 0
   \<and> raised (init_db denied_world detect_env empty_server) \<noteq> None
   \<and> printed (trace (init_db denied_world detect_env empty_server)) = []
   \<and> exit_status (init_db denied_world detect_env empty_server) \<noteq> 0"
proof -
  have r: "resolve detect_env = Inr detect_params"
    by (simp add: detect_env_def resolve_def detect_params_def)
  have a: "raised (init_db quiet_world detect_env empty_server) = None"
    using r by (simp add: init_db_def quiet_world_def nothing_raises)
  have b: "raised (init_db denied_world detect_env empty_server) \<noteq> None"
    using r
    by (simp add: init_db_def quiet_world_def denied_world_def execute_raises abort_def)
  show ?thesis
    using a b
      success_prints_once [of quiet_world detect_env empty_server]
      success_prints_once [of denied_world detect_env empty_server]
    by simp
qed

text \<open>
  C2, as the code has it. The two close calls stand after the commit with no handler
  around them, so they are reached only when every call before them has returned: the
  cursor is closed exactly when the commit was called and returned, the connection is
  closed exactly when the close of the cursor was called and returned, the close of the
  cursor is the call just before the close of the connection, and a run in which the
  execution of the statement or the commit raises makes neither close call. A run that
  raises nothing makes both, cursor first.
\<close>

theorem handles_closed_after_commit:
  "(raised (init_db w env srv) = None \<longrightarrow>
      (\<exists>p. trace (init_db w env srv)
             = [Connect p, Cursor, Execute create_predictions, Commit, CursorClose,
                ConnClose, Print success_message]))
   \<and> (CursorClose \<in> set (trace (init_db w env srv))
        \<longleftrightarrow> Commit \<in> set (trace (init_db w env srv)) \<and> commit_fault w = None)
   \<and> (ConnClose \<in> set (trace (init_db w env srv))
        \<longleftrightarrow> CursorClose \<in> set (trace (init_db w env srv)) \<and> cursor_close_fault w = None)
   \<and> (\<forall>pre post. trace (init_db w env srv) = pre @ ConnClose # post
        \<longrightarrow> pre \<noteq> [] \<and> last pre = CursorClose)
   \<and> (Execute create_predictions \<in> set (trace (init_db w env srv))
       \<and> (execute_fault w \<noteq> None \<or> commit_fault w \<noteq> None)
        \<longrightarrow> CursorClose \<notin> set (trace (init_db w env srv))
            \<and> ConnClose \<notin> set (trace (init_db w env srv)))"
proof (cases rule: init_db_cases [of w env srv])
  case invalid
  then show ?thesis
    by (simp add: abort_def)
next
  case (valid p)
  show ?thesis
    unfolding valid(2)
    by (cases rule: connect_and_create_cases [of w p srv])
       (auto simp: abort_def Cons_eq_append_conv)
qed

theorem handles_closed_after_commit_witness:
  "raised (init_db quiet_world detect_env empty_server) = None
   \<and> trace (init_db quiet_world detect_env empty_server)
       = [Connect detect_params, Cursor, Execute create_predictions, Commit, CursorClose,
          ConnClose, Print success_message]
   \<and> execute_fault denied_world \<noteq> None
   \<and> Execute create_predictions \<in> set (trace (init_db denied_world detect_env empty_server))
   \<and> CursorClose \<notin> set (trace (init_db denied_world detect_env empty_server))
   \<and> ConnClose \<notin> set (trace (init_db denied_world detect_env empty_server))"
proof -
  have r: "resolve detect_env = Inr detect_params"
    by (simp add: detect_env_def resolve_def detect_params_def)
  have a: "init_db quiet_world detect_env empty_server
             = connect_and_create quiet_world detect_params empty_server"
    using r by (simp add: init_db_def quiet_world_def)
  have b: "trace (connect_and_create quiet_world detect_params empty_server)
             = [Connect detect_params, Cursor, Execute create_predictions, Commit,
                CursorClose, ConnClose, Print success_message]"
          "raised (connect_and_create quiet_world detect_params empty_server) = None"
    by (simp_all add: quiet_world_def nothing_raises)
  have c: "trace (init_db denied_world detect_env empty_server)
             = [Connect detect_params, Cursor, Execute create_predictions]"
    using r
    by (simp add: init_db_def quiet_world_def denied_world_def execute_raises abort_def)
  have d: "execute_fault denied_world \<noteq> None"
    by (simp add: denied_world_def quiet_world_def)
  show ?thesis
    using a b c d
      handles_closed_after_commit [of quiet_world detect_env empty_server]
      handles_closed_after_commit [of denied_world detect_env empty_server]
    by simp
qed

text \<open>
  C2 as stated fails: the run below has connected and obtained its cursor, the execution
  of the statement raises (the role may not create tables), and the run ends there
  without a close call on the cursor or on the connection.
\<close>

theorem no_release_when_execute_raises:
  "connect_fault denied_world detect_params = None
   \<and> trace (init_db denied_world detect_env empty_server)
       = [Connect detect_params, Cursor, Execute create_predictions]
   \<and> raised (init_db denied_world detect_env empty_server)
       = Some (Psycopg2Error ''InsufficientPrivilege'')
   \<and> CursorClose \<notin> set (trace (init_db denied_world detect_env empty_server))
   \<and> ConnClose \<notin> set (trace (init_db denied_world detect_env empty_server))"
proof -
  have r: "resolve detect_env = Inr detect_params"
    by (simp add: detect_env_def resolve_def detect_params_def)
  have "init_db denied_world detect_env empty_server
          = abort (Psycopg2Error ''InsufficientPrivilege'')
              [Connect detect_params, Cursor, Execute create_predictions] empty_server"
    using r by (simp add: init_db_def quiet_world_def denied_world_def execute_raises)
  then show ?thesis
    by (simp add: abort_def denied_world_def quiet_world_def)
qed

section \<open>The schema and the catalog\<close>

lemma tables_of_append: "tables_of (xs @ ys) = tables_of xs @ tables_of ys"
  by (induction xs rule: tables_of.induct) simp_all

lemma find_append_case:
  "find P (xs @ ys) = (case find P xs of Some x \<Rightarrow> Some x | None \<Rightarrow> find P ys)"
  by (induction xs) simp_all

lemma lookup_append:
  "lookup_table (cat @ rs) n
     = (case lookup_table cat n of Some t \<Rightarrow> Some t | None \<Rightarrow> lookup_table rs n)"
  by (simp add: lookup_table_def tables_of_append find_append_case split: option.splits)

lemma count_append:
  "count_tables (cat @ rs) n = count_tables cat n + count_tables rs n"
  by (simp add: count_tables_def tables_of_append)

lemma table_names_subset:
  "tbl_name ` set (tables_of cat) \<subseteq> set (relation_names cat)"
  by (induction cat rule: tables_of.induct) (auto simp: relation_names_def)

lemma lookup_unnamed:
  assumes "n \<notin> set (relation_names cat)"
  shows "lookup_table cat n = None"
  using assms table_names_subset [of cat]
  by (auto simp: lookup_table_def find_None_iff)

lemma count_unnamed:
  assumes "n \<notin> set (relation_names cat)"
  shows "count_tables cat n = 0"
  using assms table_names_subset [of cat]
  by (auto simp: count_tables_def filter_empty_conv)

text \<open>A name in use that no view, sequence or index bears is the name of a table.\<close>

lemma named_not_shadowed:
  assumes "n \<in> set (relation_names cat)" "\<not> shadowed cat n"
  shows "0 < count_tables cat n"
  using assms
proof (induction cat)
  case Nil
  then show ?case by (simp add: relation_names_def)
next
  case (Cons r cat)
  then show ?case
    by (cases r) (auto simp: relation_names_def shadowed_def count_tables_def)
qed

lemma tables_of_created: "tables_of (created_relations w cat) = [fresh_predictions]"
  by (simp add: created_relations_def id_sequence_def pkey_index_def)

lemma lookup_created_relations:
  "lookup_table (created_relations w cat) n
     = (if n = ''predictions'' then Some fresh_predictions else None)"
  by (auto simp: lookup_table_def tables_of_created fresh_predictions_def)

lemma count_created_relations:
  "count_tables (created_relations w cat) ''predictions'' = 1"
  by (simp add: count_tables_def tables_of_created fresh_predictions_def)

lemma names_with_predictions:
  "''predictions'' \<in> set (relation_names (with_predictions w cat))"
  by (simp add: with_predictions_def relation_names_def created_relations_def
        fresh_predictions_def)

lemma with_predictions_idem:
  "with_predictions w (with_predictions w cat) = with_predictions w cat"
  using names_with_predictions [of w cat]
  by (simp add: with_predictions_def [of w "with_predictions w cat"])

lemma count_with_predictions:
  "count_tables (with_predictions w cat) ''predictions''
     = (if ''predictions'' \<in> set (relation_names cat) then count_tables cat ''predictions''
        else 1)"
  by (simp add: with_predictions_def count_append count_created_relations count_unnamed)

lemma lookup_kept:
  assumes "lookup_table cat n = Some t"
  shows "lookup_table (with_predictions w cat) n = Some t"
  using assms by (simp add: with_predictions_def lookup_append)

lemma lookup_created:
  assumes "''predictions'' \<notin> set (relation_names cat)"
  shows "lookup_table (with_predictions w cat) ''predictions'' = Some fresh_predictions"
  using assms
  by (simp add: with_predictions_def lookup_append lookup_unnamed lookup_created_relations)

text \<open>What a run leaves in the server: what was there, or the statement's effect on it.\<close>

lemma db_init_db:
  "db (init_db w env srv) = srv
   \<or> (\<exists>p. resolve (load_dotenv w env) = Inr p
          \<and> db (init_db w env srv) = srv(dbname p := with_predictions w (srv (dbname p))))"
proof (cases rule: init_db_cases [of w env srv])
  case invalid
  then show ?thesis
    by (simp add: abort_def)
next
  case (valid p)
  show ?thesis
    unfolding valid(2)
    by (cases rule: connect_and_create_cases [of w p srv])
       (use valid(1) in \<open>simp_all add: abort_def\<close>)
qed

lemma init_db_all_return:
  assumes "resolve (load_dotenv w env) = Inr p"
      and "connect_fault w p = None" "cursor_fault w = None" "execute_fault w = None"
      and "commit_fault w = None" "cursor_close_fault w = None" "conn_close_fault w = None"
  shows "init_db w env srv =
           \<lparr>raised = None,
            trace = [Connect p, Cursor, Execute create_predictions, Commit, CursorClose,
                     ConnClose, Print success_message],
            db = srv(dbname p := with_predictions w (srv (dbname p)))\<rparr>"
  using assms by (simp add: init_db_def nothing_raises)

lemma init_db_success:
  assumes "raised (init_db w env srv) = None" "resolve (load_dotenv w env) = Inr p"
  shows "db (init_db w env srv) = srv(dbname p := with_predictions w (srv (dbname p)))"
proof -
  have run: "init_db w env srv = connect_and_create w p srv"
    using assms(2) by (simp add: init_db_def)
  show ?thesis
    using assms(1) unfolding run
    by (cases rule: connect_and_create_cases [of w p srv]) (simp_all add: abort_def)
qed

text \<open>The runs of the concrete worlds used below.\<close>

lemma resolve_detect: "resolve (load_dotenv quiet_world detect_env) = Inr detect_params"
  by (simp add: quiet_world_def detect_env_def resolve_def detect_params_def)

lemma quiet_returns:
  "connect_fault quiet_world p = None" "cursor_fault quiet_world = None"
  "execute_fault quiet_world = None" "commit_fault quiet_world = None"
  "cursor_close_fault quiet_world = None" "conn_close_fault quiet_world = None"
  by (simp_all add: quiet_world_def)

lemma quiet_run:
  "init_db quiet_world detect_env srv =
     \<lparr>raised = None,
      trace = [Connect detect_params, Cursor, Execute create_predictions, Commit,
               CursorClose, ConnClose, Print success_message],
      db = srv(''detect'' := with_predictions quiet_world (srv ''detect''))\<rparr>"
  using init_db_all_return [OF resolve_detect quiet_returns, of srv]
  by (simp add: detect_params_def)

lemma with_predictions_view:
  "with_predictions w [Table users_table, View ''predictions'']
     = [Table users_table, View ''predictions'']"
  by (simp add: with_predictions_def relation_names_def)


text \<open>
  C3, as the code has it. With the three credentials set and not empty and a database that
  is reachable and lets every call of the driver return, a run succeeds, and a second run
  in the same conditions on the server the first one left succeeds as well and leaves the
  server as the first one left it. The target database then holds exactly one table named
  \<^verbatim>\<open>predictions\<close> if it held at most one before and no relation of another kind (a
  view, a sequence, an index) bore that name. Moreover no run, successful or not, changes
  a \<^verbatim>\<open>predictions\<close> table that a database already holds: its columns and its rows
  stay what they were.
\<close>

theorem rerun_is_idempotent:
  "(resolve (load_dotenv w env) = Inr p
    \<and> connect_fault w p = None \<and> cursor_fault w = None \<and> execute_fault w = None
    \<and> commit_fault w = None \<and> cursor_close_fault w = None \<and> conn_close_fault w = None
    \<longrightarrow> raised (init_db w env srv) = None
        \<and> raised (init_db w env (db (init_db w env srv))) = None
        \<and> db (init_db w env (db (init_db w env srv))) = db (init_db w env srv))
   \<and> (resolve (load_dotenv w env) = Inr p
      \<and> connect_fault w p = None \<and> cursor_fault w = None \<and> execute_fault w = None
      \<and> commit_fault w = None \<and> cursor_close_fault w = None \<and> conn_close_fault w = None
      \<and> count_tables (srv (dbname p)) ''predictions'' \<le> 1
      \<and> \<not> shadowed (srv (dbname p)) ''predictions''
      \<longrightarrow> count_tables (db (init_db w env (db (init_db w env srv))) (dbname p))
             ''predictions'' = 1)
   \<and> (lookup_table (srv d) ''predictions'' = Some t
      \<longrightarrow> lookup_table (db (init_db w env srv) d) ''predictions'' = Some t)"
proof -
  let ?srv1 = "srv(dbname p := with_predictions w (srv (dbname p)))"
  have twice: "raised (init_db w env srv) = None
        \<and> raised (init_db w env (db (init_db w env srv))) = None
        \<and> db (init_db w env (db (init_db w env srv))) = db (init_db w env srv)
        \<and> db (init_db w env (db (init_db w env srv))) (dbname p)
            = with_predictions w (srv (dbname p))"
    if h: "resolve (load_dotenv w env) = Inr p
      \<and> connect_fault w p = None \<and> cursor_fault w = None \<and> execute_fault w = None
      \<and> commit_fault w = None \<and> cursor_close_fault w = None \<and> conn_close_fault w = None"
  proof -
    have one: "\<And>s. init_db w env s =
           \<lparr>raised = None,
            trace = [Connect p, Cursor, Execute create_predictions, Commit, CursorClose,
                     ConnClose, Print success_message],
            db = s(dbname p := with_predictions w (s (dbname p)))\<rparr>"
      using h by (intro init_db_all_return) simp_all
    have db1: "db (init_db w env srv) = ?srv1"
      by (simp add: one)
    have db2: "db (init_db w env ?srv1) = ?srv1"
      by (simp add: one [of ?srv1] with_predictions_idem)
    have a: "raised (init_db w env srv) = None"
      by (simp add: one)
    have b: "raised (init_db w env (db (init_db w env srv))) = None"
      by (simp add: one [of "db (init_db w env srv)"])
    have c: "db (init_db w env (db (init_db w env srv))) = db (init_db w env srv)"
      using db2 by (simp only: db1)
    have d: "db (init_db w env (db (init_db w env srv))) (dbname p)
               = with_predictions w (srv (dbname p))"
      using db2 by (simp add: db1)
    show ?thesis
      by (intro conjI a b c d)
  qed
  have count: "count_tables (db (init_db w env (db (init_db w env srv))) (dbname p))
             ''predictions'' = 1"
    if h: "resolve (load_dotenv w env) = Inr p
      \<and> connect_fault w p = None \<and> cursor_fault w = None \<and> execute_fault w = None
      \<and> commit_fault w = None \<and> cursor_close_fault w = None \<and> conn_close_fault w = None
      \<and> count_tables (srv (dbname p)) ''predictions'' \<le> 1
      \<and> \<not> shadowed (srv (dbname p)) ''predictions''"
  proof -
    from h have h': "resolve (load_dotenv w env) = Inr p
      \<and> connect_fault w p = None \<and> cursor_fault w = None \<and> execute_fault w = None
      \<and> commit_fault w = None \<and> cursor_close_fault w = None \<and> conn_close_fault w = None"
      by simp
    note at = twice [OF h', THEN conjunct2, THEN conjunct2, THEN conjunct2]
    show ?thesis
    proof (cases "''predictions'' \<in> set (relation_names (srv (dbname p)))")
      case True
      with h have "0 < count_tables (srv (dbname p)) ''predictions''"
        by (simp add: named_not_shadowed)
      with h True show ?thesis
        by (simp add: at count_with_predictions)
    next
      case False
      then show ?thesis
        by (simp add: at count_with_predictions)
    qed
  qed
  have kept: "lookup_table (db (init_db w env srv) d) ''predictions'' = Some t"
    if old: "lookup_table (srv d) ''predictions'' = Some t"
  proof -
    from db_init_db [of w env srv] show ?thesis
    proof
      assume "db (init_db w env srv) = srv"
      with old show ?thesis by simp
    next
      assume "\<exists>p. resolve (load_dotenv w env) = Inr p
            \<and> db (init_db w env srv) = srv(dbname p := with_predictions w (srv (dbname p)))"
      then obtain q :: conn_params where
        "db (init_db w env srv) = srv(dbname q := with_predictions w (srv (dbname q)))"
        by blast
      with old show ?thesis
        by (cases "d = dbname q") (simp_all add: lookup_kept)
    qed
  qed
  from twice have first:
    "resolve (load_dotenv w env) = Inr p
      \<and> connect_fault w p = None \<and> cursor_fault w = None \<and> execute_fault w = None
      \<and> commit_fault w = None \<and> cursor_close_fault w = None \<and> conn_close_fault w = None
      \<longrightarrow> raised (init_db w env srv) = None
        \<and> raised (init_db w env (db (init_db w env srv))) = None
        \<and> db (init_db w env (db (init_db w env srv))) = db (init_db w env srv)"
    by simp
  show ?thesis
    using first count kept by (intro conjI impI) simp_all
qed

theorem rerun_is_idempotent_witness:
  "resolve (load_dotenv quiet_world detect_env) = Inr detect_params
   \<and> count_tables (legacy_server (dbname detect_params)) ''predictions'' \<le> 1
   \<and> \<not> shadowed (legacy_server (dbname detect_params)) ''predictions''
   \<and> raised (init_db quiet_world detect_env legacy_server) = None
   \<and> raised (init_db quiet_world detect_env
               (db (init_db quiet_world detect_env legacy_server))) = None
   \<and> db (init_db quiet_world detect_env
           (db (init_db quiet_world detect_env legacy_server)))
       = db (init_db quiet_world detect_env legacy_server)
   \<and> count_tables
        (db (init_db quiet_world detect_env
               (db (init_db quiet_world detect_env legacy_server))) (dbname detect_params))
        ''predictions'' = 1
   \<and> lookup_table (legacy_server ''detect'') ''predictions'' = Some old_predictions
   \<and> lookup_table (db (init_db quiet_world detect_env legacy_server) ''detect'')
        ''predictions'' = Some old_predictions"
proof -
  have c: "count_tables (legacy_server (dbname detect_params)) ''predictions'' \<le> 1"
    by (simp add: count_tables_def legacy_server_def detect_params_def users_table_def
          old_predictions_def)
  have s: "\<not> shadowed (legacy_server (dbname detect_params)) ''predictions''"
    by (simp add: shadowed_def legacy_server_def detect_params_def users_table_def
          old_predictions_def)
  have l: "lookup_table (legacy_server ''detect'') ''predictions'' = Some old_predictions"
    by (simp add: lookup_table_def legacy_server_def users_table_def old_predictions_def)
  note q = quiet_returns(1) [of detect_params] quiet_returns(2-6)
  note main =
    rerun_is_idempotent
      [of quiet_world detect_env detect_params legacy_server "''detect''" old_predictions]
  have first: "raised (init_db quiet_world detect_env legacy_server) = None
      \<and> raised (init_db quiet_world detect_env
               (db (init_db quiet_world detect_env legacy_server))) = None
      \<and> db (init_db quiet_world detect_env
              (db (init_db quiet_world detect_env legacy_server)))
          = db (init_db quiet_world detect_env legacy_server)"
    using main resolve_detect q by blast
  have second: "count_tables
        (db (init_db quiet_world detect_env
               (db (init_db quiet_world detect_env legacy_server))) (dbname detect_params))
        ''predictions'' = 1"
    using main resolve_detect q c s by blast
  have third: "lookup_table (db (init_db quiet_world detect_env legacy_server) ''detect'')
        ''predictions'' = Some old_predictions"
    using main l by blast
  show ?thesis
    using resolve_detect c s first second l third by blast
qed

text \<open>
  C3 as stated fails on the count: in a database where \<^verbatim>\<open>predictions\<close> is a view, the
  statement is skipped, both runs succeed, and the database ends with no table of that
  name.
\<close>

theorem rerun_beside_view_leaves_no_table:
  "raised (init_db quiet_world detect_env view_server) = None
   \<and> raised (init_db quiet_world detect_env
               (db (init_db quiet_world detect_env view_server))) = None
   \<and> count_tables
        (db (init_db quiet_world detect_env
               (db (init_db quiet_world detect_env view_server))) ''detect'')
        ''predictions'' = 0"
proof -
  have r: "\<And>s. raised (init_db quiet_world detect_env s) = None"
    by (simp add: quiet_run)
  have 1: "db (init_db quiet_world detect_env view_server) = view_server"
    by (simp add: quiet_run view_server_def with_predictions_view)
  have 2: "count_tables (view_server ''detect'') ''predictions'' = 0"
    by (simp add: count_tables_def view_server_def users_table_def)
  show ?thesis
    by (simp add: r 1 2)
qed

lemma shape_fresh_predictions:
  "tbl_rows fresh_predictions = []"
  "length (tbl_columns fresh_predictions) = 10"
  "map (\<lambda>c. (col_name c, kind_of (col_type c), nullable c)) (tbl_columns fresh_predictions)
     = [(''id'', Integer, False),
        (''prediction_id'', Uuid, False),
        (''image_path'', Text, True),
        (''class_name'', Text, True),
        (''confidence'', FloatingPoint, True),
        (''bbox_left'', Integer, True),
        (''bbox_top'', Integer, True),
        (''bbox_width'', Integer, True),
        (''bbox_height'', Integer, True),
        (''created_at'', Timestamp, True)]"
  "map col_name (filter auto_increment (tbl_columns fresh_predictions)) = [''id'']"
  "map col_name (filter primary_key (tbl_columns fresh_predictions)) = [''id'']"
  "map col_name (filter defaults_to_insertion_time (tbl_columns fresh_predictions))
     = [''created_at'']"
  by (simp_all add: fresh_predictions_def predictions_columns_def plain_column_def
        nullable_def auto_increment_def defaults_to_insertion_time_def)

text \<open>
  C4, as the code has it. After a run that raises nothing, on a target database that held
  no relation of any kind named \<^verbatim>\<open>predictions\<close>, the database holds exactly one table
  of that name, without rows, with ten columns in this order: \<^verbatim>\<open>id\<close>, an integer that
  is the auto-incrementing primary key; \<^verbatim>\<open>prediction_id\<close>, a UUID;
  \<^verbatim>\<open>image_path\<close> and \<^verbatim>\<open>class_name\<close>, nullable text; \<^verbatim>\<open>confidence\<close>, nullable
  floating point; the four \<^verbatim>\<open>bbox\<close> columns, nullable integers; and
  \<^verbatim>\<open>created_at\<close>, a timestamp whose default is the time of insertion.
\<close>

theorem created_table_shape:
  assumes "raised (init_db w env srv) = None"
      and "resolve (load_dotenv w env) = Inr p"
      and "''predictions'' \<notin> set (relation_names (srv (dbname p)))"
  shows "\<exists>t. lookup_table (db (init_db w env srv) (dbname p)) ''predictions'' = Some t
           \<and> count_tables (db (init_db w env srv) (dbname p)) ''predictions'' = 1
           \<and> tbl_rows t = []
           \<and> length (tbl_columns t) = 10
           \<and> map (\<lambda>c. (col_name c, kind_of (col_type c), nullable c)) (tbl_columns t)
               = [(''id'', Integer, False),
                  (''prediction_id'', Uuid, False),
                  (''image_path'', Text, True),
                  (''class_name'', Text, True),
                  (''confidence'', FloatingPoint, True),
                  (''bbox_left'', Integer, True),
                  (''bbox_top'', Integer, True),
                  (''bbox_width'', Integer, True),
                  (''bbox_height'', Integer, True),
                  (''created_at'', Timestamp, True)]
           \<and> map col_name (filter auto_increment (tbl_columns t)) = [''id'']
           \<and> map col_name (filter primary_key (tbl_columns t)) = [''id'']
           \<and> map col_name (filter defaults_to_insertion_time (tbl_columns t))
               = [''created_at'']"
proof -
  have db1: "db (init_db w env srv) (dbname p) = with_predictions w (srv (dbname p))"
    using init_db_success [OF assms(1,2)] by simp
  have look: "lookup_table (db (init_db w env srv) (dbname p)) ''predictions''
                = Some fresh_predictions"
    using assms(3) by (simp add: db1 lookup_created)
  have cnt: "count_tables (db (init_db w env srv) (dbname p)) ''predictions'' = 1"
    using assms(3) by (simp add: db1 count_with_predictions)
  show ?thesis
    by (intro exI [of _ fresh_predictions] conjI look cnt shape_fresh_predictions)
qed

theorem created_table_shape_witness:
  "raised (init_db quiet_world detect_env empty_server) = None
   \<and> resolve (load_dotenv quiet_world detect_env) = Inr detect_params
   \<and> ''predictions'' \<notin> set (relation_names (empty_server (dbname detect_params)))
   \<and> (\<exists>t. lookup_table (db (init_db quiet_world detect_env empty_server)
                           (dbname detect_params)) ''predictions'' = Some t
          \<and> count_tables (db (init_db quiet_world detect_env empty_server)
                             (dbname detect_params)) ''predictions'' = 1
          \<and> tbl_rows t = []
          \<and> length (tbl_columns t) = 10
          \<and> map (\<lambda>c. (col_name c, kind_of (col_type c), nullable c)) (tbl_columns t)
              = [(''id'', Integer, False),
                 (''prediction_id'', Uuid, False),
                 (''image_path'', Text, True),
                 (''class_name'', Text, True),
                 (''confidence'', FloatingPoint, True),
                 (''bbox_left'', Integer, True),
                 (''bbox_top'', Integer, True),
                 (''bbox_width'', Integer, True),
                 (''bbox_height'', Integer, True),
                 (''created_at'', Timestamp, True)]
          \<and> map col_name (filter auto_increment (tbl_columns t)) = [''id'']
          \<and> map col_name (filter primary_key (tbl_columns t)) = [''id'']
          \<and> map col_name (filter defaults_to_insertion_time (tbl_columns t))
              = [''created_at''])"
proof -
  have a: "raised (init_db quiet_world detect_env empty_server) = None"
    by (simp add: quiet_run)
  have l: "''predictions'' \<notin> set (relation_names (empty_server (dbname detect_params)))"
    by (simp add: relation_names_def empty_server_def)
  show ?thesis
    by (intro conjI a resolve_detect l created_table_shape [OF a resolve_detect l])
qed

text \<open>
  C4 as stated fails: the database below holds no table named \<^verbatim>\<open>predictions\<close> but a
  view of that name; the run succeeds, the statement is skipped, and there is still no
  such table afterwards, so the catalog shows no table with the ten columns.
\<close>

theorem view_blocks_table_creation:
  "lookup_table (view_server ''detect'') ''predictions'' = None
   \<and> count_tables (view_server ''detect'') ''predictions'' = 0
   \<and> raised (init_db quiet_world detect_env view_server) = None
   \<and> exit_status (init_db quiet_world detect_env view_server) = 0
   \<and> lookup_table (db (init_db quiet_world detect_env view_server) ''detect'')
        ''predictions'' = None"
proof -
  have 1: "db (init_db quiet_world detect_env view_server) = view_server"
    by (simp add: quiet_run view_server_def with_predictions_view)
  have 2: "lookup_table (view_server ''detect'') ''predictions'' = None"
    by (simp add: lookup_table_def view_server_def users_table_def)
  have 3: "count_tables (view_server ''detect'') ''predictions'' = 0"
    by (simp add: count_tables_def view_server_def users_table_def)
  have 4: "raised (init_db quiet_world detect_env view_server) = None"
    by (simp add: quiet_run)
  show ?thesis
    by (simp add: 1 2 3 4 exit_status_def)
qed

lemma constraints_fresh_predictions:
  "map col_name (filter not_null (tbl_columns fresh_predictions)) = [''prediction_id'']"
  "map col_name (filter nullable (tbl_columns fresh_predictions))
     = [''image_path'', ''class_name'', ''confidence'', ''bbox_left'', ''bbox_top'',
        ''bbox_width'', ''bbox_height'', ''created_at'']"
  by (simp_all add: fresh_predictions_def predictions_columns_def plain_column_def
        nullable_def)

lemma not_null_violation_fresh_predictions:
  "not_null_violation fresh_predictions r \<longleftrightarrow>
     map_of r ''prediction_id'' = None \<or> map_of r ''prediction_id'' = Some None
     \<or> map_of r ''id'' = Some None"
  by (auto simp: not_null_violation_def fresh_predictions_def predictions_columns_def
        plain_column_def nullable_def stored_value_def auto_increment_def
        split: option.splits)

lemma insert_row_violation:
  assumes "not_null_violation t r"
  shows "\<exists>e. insert_row chk t r = Inl e"
  using assms by (simp add: insert_row_def split: option.splits)

text \<open>
  C9. In the table a successful run creates, \<^verbatim>\<open>prediction_id\<close> is the one column
  declared \<^verbatim>\<open>NOT NULL\<close>, while \<^verbatim>\<open>image_path\<close>, \<^verbatim>\<open>class_name\<close>,
  \<^verbatim>\<open>confidence\<close> and the four \<^verbatim>\<open>bbox\<close> columns (and \<^verbatim>\<open>created_at\<close>) accept
  \<^verbatim>\<open>NULL\<close>. A row that gives no \<^verbatim>\<open>prediction_id\<close>, or gives \<^verbatim>\<open>NULL\<close> for
  it, violates the constraint, and the table rejects it whatever the other checks of the
  engine decide; a row that gives one, and does not force the key \<^verbatim>\<open>id\<close> to
  \<^verbatim>\<open>NULL\<close>, does not violate it, whatever it gives or omits for the other columns.
\<close>

theorem prediction_id_required:
  assumes "raised (init_db w env srv) = None"
      and "resolve (load_dotenv w env) = Inr p"
      and "''predictions'' \<notin> set (relation_names (srv (dbname p)))"
  shows "\<exists>t. lookup_table (db (init_db w env srv) (dbname p)) ''predictions'' = Some t
           \<and> map col_name (filter not_null (tbl_columns t)) = [''prediction_id'']
           \<and> map col_name (filter nullable (tbl_columns t))
               = [''image_path'', ''class_name'', ''confidence'', ''bbox_left'', ''bbox_top'',
                  ''bbox_width'', ''bbox_height'', ''created_at'']
           \<and> (\<forall>r. map_of r ''prediction_id'' = None \<or> map_of r ''prediction_id'' = Some None
                  \<longrightarrow> not_null_violation t r)
           \<and> (\<forall>chk r. map_of r ''prediction_id'' = None
                        \<or> map_of r ''prediction_id'' = Some None
                  \<longrightarrow> (\<exists>e. insert_row chk t r = Inl e))
           \<and> (\<forall>r v. map_of r ''prediction_id'' = Some (Some v)
                      \<and> map_of r ''id'' \<noteq> Some None
                  \<longrightarrow> \<not> not_null_violation t r)"
proof -
  have db1: "db (init_db w env srv) (dbname p) = with_predictions w (srv (dbname p))"
    using init_db_success [OF assms(1,2)] by simp
  have look: "lookup_table (db (init_db w env srv) (dbname p)) ''predictions''
                = Some fresh_predictions"
    using assms(3) by (simp add: db1 lookup_created)
  have violate: "\<forall>r. map_of r ''prediction_id'' = None
                      \<or> map_of r ''prediction_id'' = Some None
                  \<longrightarrow> not_null_violation fresh_predictions r"
    by (simp add: not_null_violation_fresh_predictions)
  have reject: "\<forall>chk r. map_of r ''prediction_id'' = None
                        \<or> map_of r ''prediction_id'' = Some None
                  \<longrightarrow> (\<exists>e. insert_row chk fresh_predictions r = Inl e)"
    using violate insert_row_violation by blast
  have pass: "\<forall>r v. map_of r ''prediction_id'' = Some (Some v)
                      \<and> map_of r ''id'' \<noteq> Some None
                  \<longrightarrow> \<not> not_null_violation fresh_predictions r"
    by (simp add: not_null_violation_fresh_predictions)
  show ?thesis
    by (intro exI [of _ fresh_predictions] conjI look constraints_fresh_predictions
          violate reject pass)
qed

theorem prediction_id_required_witness:
  "raised (init_db quiet_world detect_env empty_server) = None
   \<and> resolve (load_dotenv quiet_world detect_env) = Inr detect_params
   \<and> ''predictions'' \<notin> set (relation_names (empty_server (dbname detect_params)))
   \<and> (\<exists>t. lookup_table (db (init_db quiet_world detect_env empty_server)
                           (dbname detect_params)) ''predictions'' = Some t
          \<and> map col_name (filter not_null (tbl_columns t)) = [''prediction_id'']
          \<and> (\<exists>e. insert_row no_checks t
                     [(''class_name'', Some ''cat''), (''confidence'', Some ''0.9'')] = Inl e)
          \<and> (\<exists>e. insert_row no_checks t
                     [(''prediction_id'', None), (''class_name'', Some ''cat'')] = Inl e)
          \<and> \<not> not_null_violation t
                 [(''prediction_id'', Some ''7d444840-9dc0-11d1-b245-5ffdce74fad2'')])"
proof -
  have a: "raised (init_db quiet_world detect_env empty_server) = None"
    by (simp add: quiet_run)
  have l: "''predictions'' \<notin> set (relation_names (empty_server (dbname detect_params)))"
    by (simp add: relation_names_def empty_server_def)
  from prediction_id_required [OF a resolve_detect l]
  obtain t :: table where t:
    "lookup_table (db (init_db quiet_world detect_env empty_server) (dbname detect_params))
       ''predictions'' = Some t"
    "map col_name (filter not_null (tbl_columns t)) = [''prediction_id'']"
    "map col_name (filter nullable (tbl_columns t))
       = [''image_path'', ''class_name'', ''confidence'', ''bbox_left'', ''bbox_top'',
          ''bbox_width'', ''bbox_height'', ''created_at'']"
    "\<forall>r. map_of r ''prediction_id'' = None \<or> map_of r ''prediction_id'' = Some None
         \<longrightarrow> not_null_violation t r"
    "\<forall>chk r. map_of r ''prediction_id'' = None \<or> map_of r ''prediction_id'' = Some None
         \<longrightarrow> (\<exists>e. insert_row chk t r = Inl e)"
    "\<forall>r v. map_of r ''prediction_id'' = Some (Some v) \<and> map_of r ''id'' \<noteq> Some None
         \<longrightarrow> \<not> not_null_violation t r"
    by (elim exE conjE) (rule that; assumption)
  have i1: "\<exists>e. insert_row no_checks t
                  [(''class_name'', Some ''cat''), (''confidence'', Some ''0.9'')] = Inl e"
    using t(5) by simp
  have i2: "\<exists>e. insert_row no_checks t
                  [(''prediction_id'', None), (''class_name'', Some ''cat'')] = Inl e"
    using t(5) by simp
  have i3: "\<not> not_null_violation t
                [(''prediction_id'', Some ''7d444840-9dc0-11d1-b245-5ffdce74fad2'')]"
    using t(6) by simp
  show ?thesis
    by (intro conjI a resolve_detect l exI [of _ t] t(1) t(2) i1 i2 i3)
qed

section \<open>What a run changes\<close>











end
